theory Spec2Isabelle
  imports Complex_Main
begin

section \<open>Swerve module: data model\<close>

text \<open>
  Embedding of \<^verbatim>\<open>src/swerve/swerve_module.py\<close>. Python floats are idealised as
  \<^typ>\<open>real\<close> (no rounding, no NaN, no infinities), Python ints as \<^typ>\<open>int\<close>. The
  sensor reading of the steering controller is an input of the model and does not change
  during one call.
\<close>

datatype py_error = ZeroDivisionError

datatype ControlMode = Position | PercentOutput

datatype FeedbackDevice = Analog

text \<open>
  The motor controller handle (\<^verbatim>\<open>ctre.talonsrx.TalonSRX\<close>), an external collaborator.
  The first four fields are what the hardware reports (inputs), the last three are what
  the module has written to it.
\<close>

record talon_srx =
  selected_sensor_position :: int
  talon_get :: real
  analog_in_raw :: int
  closed_loop_error :: int
  selected_feedback_sensor :: "(FeedbackDevice \<times> int \<times> int) option"
  profile_slot :: "(int \<times> int) option"
  last_set :: "(ControlMode \<times> real) option"

text \<open>
  Modelled from the spec: \<^verbatim>\<open>wpilib.Preferences\<close> (the persistent key-value preference
  store) is an external library that is not part of the sources. Spec section 6 gives its
  contract: \<^verbatim>\<open>getFloat(key, default)\<close>, \<^verbatim>\<open>getBoolean(key, default)\<close>,
  \<^verbatim>\<open>putFloat(key, value)\<close>, \<^verbatim>\<open>putBoolean(key, value)\<close>; a missing or unreadable
  key yields the default (section 7), and a put is durable and synchronous.
\<close>

datatype pref_value = PFloat real | PBool bool

type_synonym preferences = "string \<rightharpoonup> pref_value"

definition getFloat :: "preferences \<Rightarrow> string \<Rightarrow> real \<Rightarrow> real" where
  "getFloat prefs key dflt = (case prefs key of Some (PFloat v) \<Rightarrow> v | _ \<Rightarrow> dflt)"

definition getBoolean :: "preferences \<Rightarrow> string \<Rightarrow> bool \<Rightarrow> bool" where
  "getBoolean prefs key dflt = (case prefs key of Some (PBool b) \<Rightarrow> b | _ \<Rightarrow> dflt)"

definition putFloat :: "string \<Rightarrow> real \<Rightarrow> preferences \<Rightarrow> preferences" where
  "putFloat key v prefs = prefs(key \<mapsto> PFloat v)"

definition putBoolean :: "string \<Rightarrow> bool \<Rightarrow> preferences \<Rightarrow> preferences" where
  "putBoolean key b prefs = prefs(key \<mapsto> PBool b)"

text \<open>
  Modelled from the spec: \<^verbatim>\<open>wpilib.SmartDashboard\<close> (the telemetry sink) is an external
  library as well; \<^verbatim>\<open>putNumber(label, value)\<close> publishes one named number.
\<close>

type_synonym dashboard = "string \<rightharpoonup> real"

definition putNumber :: "string \<Rightarrow> real \<Rightarrow> dashboard \<Rightarrow> dashboard" where
  "putNumber label v d = d(label \<mapsto> v)"

text \<open>The attributes of a \<^verbatim>\<open>SwerveModule\<close> object.\<close>

record swerve_module =
  steer_talon :: talon_srx
  drive_talon :: talon_srx
  name :: string
  steer_target :: real
  steer_target_native :: real
  drive_temp_flipped :: bool
  steer_offset :: real
  steer_min :: real
  steer_max :: real
  steer_range :: int
  drive_reversed :: bool
  steer_reversed :: bool

text \<open>
  The state a method runs in: the object itself and the two process-wide singletons it
  reaches through \<^verbatim>\<open>wpilib.Preferences.getInstance()\<close> and \<^verbatim>\<open>wpilib.SmartDashboard\<close>.
\<close>

record robot =
  self :: swerve_module
  prefs :: preferences
  smart_dashboard :: dashboard

section \<open>Operations\<close>

text \<open>Line 10: \<^verbatim>\<open>_apply_range_hack = False\<close>.\<close>

definition apply_range_hack :: bool where
  "apply_range_hack = False"

text \<open>\<^verbatim>\<open>math.trunc\<close> and \<^verbatim>\<open>int()\<close> on a float: rounding toward zero.\<close>

definition py_trunc :: "real \<Rightarrow> int" where
  "py_trunc x = (if x < 0 then \<lceil>x\<rceil> else \<lfloor>x\<rfloor>)"

text \<open>
  \<^verbatim>\<open>load_config_values\<close>, lines 56-90. The module-level flag is a parameter \<open>hack\<close> so
  that both branches of the source are modelled; the program as shipped runs it with
  \<^const>\<open>apply_range_hack\<close>.
\<close>

definition load_config_values :: "bool \<Rightarrow> robot \<Rightarrow> robot" where
  "load_config_values hack r =
    (let m0 = self r;
         m1 = m0\<lparr>steer_talon := (steer_talon m0)\<lparr>profile_slot := Some (0, 0)\<rparr>\<rparr>;
         preferences = prefs r;
         m2 = m1\<lparr>steer_offset := getFloat preferences (name m1 @ ''-offset'') 0\<rparr>;
         m3 = (if hack then
                 (let a = m2\<lparr>steer_min := getFloat preferences (name m2 @ ''-min'') 0\<rparr>;
                      b = a\<lparr>steer_max := getFloat preferences (name a @ ''-max'') 1024\<rparr>;
                      actual_steer_range = py_trunc (steer_max b - steer_min b);
                      c = b\<lparr>steer_min := steer_min b
                             + real_of_int (py_trunc (real_of_int actual_steer_range * (1 / 100)))\<rparr>;
                      d = c\<lparr>steer_max := steer_max c
                             - real_of_int (py_trunc (real_of_int actual_steer_range * (1 / 100)))\<rparr>;
                      e = d\<lparr>steer_offset := steer_offset d - steer_min d\<rparr>
                  in e\<lparr>steer_range := py_trunc (steer_max e - steer_min e)\<rparr>)
               else m2\<lparr>steer_min := 0, steer_max := 1024, steer_range := 1024\<rparr>);
         m4 = m3\<lparr>drive_reversed := getBoolean preferences (name m3 @ ''-reversed'') False\<rparr>;
         m5 = m4\<lparr>steer_reversed := getBoolean preferences (name m4 @ ''-steer-reversed'') False\<rparr>
     in r\<lparr>self := m5\<rparr>)"

text \<open>
  \<^verbatim>\<open>__init__\<close>, lines 14-54. \<open>steer\<close> and \<open>drive\<close> are the handles
  \<^verbatim>\<open>TalonSRX(steer_id)\<close> and \<^verbatim>\<open>TalonSRX(drive_id)\<close>. The six attributes that only
  \<^verbatim>\<open>load_config_values\<close> assigns do not exist before the call at line 54; the record
  holds placeholders for them there, and the load overwrites each of them.
\<close>

definition SwerveModule_init ::
  "bool \<Rightarrow> string \<Rightarrow> talon_srx \<Rightarrow> talon_srx \<Rightarrow> preferences \<Rightarrow> dashboard \<Rightarrow> robot" where
  "SwerveModule_init hack nm steer drive preferences dash =
    (let steer1 = steer\<lparr>selected_feedback_sensor := Some (Analog, 0, 0)\<rparr>;
         steer2 = steer1\<lparr>profile_slot := Some (0, 0)\<rparr>;
         m = \<lparr>steer_talon = steer2, drive_talon = drive, name = nm,
              steer_target = 0, steer_target_native = 0, drive_temp_flipped = False,
              steer_offset = 0, steer_min = 0, steer_max = 0, steer_range = 0,
              drive_reversed = False, steer_reversed = False\<rparr>
     in load_config_values hack \<lparr>self = m, prefs = preferences, smart_dashboard = dash\<rparr>)"

text \<open>\<^verbatim>\<open>save_config_values\<close>, lines 92-104.\<close>

definition save_config_values :: "bool \<Rightarrow> robot \<Rightarrow> robot" where
  "save_config_values hack r =
    (let m = self r;
         p1 = putFloat (name m @ ''-offset'') (steer_offset m) (prefs r);
         p2 = putBoolean (name m @ ''-reversed'') (drive_reversed m) p1;
         p3 = (if hack then
                 putFloat (name m @ ''-max'') (steer_max m)
                   (putFloat (name m @ ''-min'') (steer_min m) p2)
               else p2)
     in r\<lparr>prefs := p3\<rparr>)"

text \<open>
  \<^verbatim>\<open>get_steer_angle\<close>, lines 106-117. Python's \<^verbatim>\<open>/\<close> raises on a zero divisor.
\<close>

definition get_steer_angle :: "robot \<Rightarrow> py_error + real" where
  "get_steer_angle r =
    (let m = self r;
         native_units = real_of_int (selected_sensor_position (steer_talon m));
         native_units = native_units - steer_offset m
     in if steer_range m = 0 then Inl ZeroDivisionError
        else (let rotation_pos = native_units / real_of_int (steer_range m)
              in Inr (rotation_pos * 2 * pi)))"

text \<open>
  The three steps of \<^verbatim>\<open>set_steer_angle\<close>, lines 131-154, each as the source writes it:
  the turn count (lines 131-133), the unwrapping (lines 140-144) and the shortest-path
  decision (lines 147-154), which yields the target and \<^verbatim>\<open>should_reverse_drive\<close>.
  The division of the turn count raises on a zero \<^verbatim>\<open>steer_range\<close>; that branch is
  written in \<open>set_steer_angle\<close> below, which reaches \<open>n_rotations\<close> only with a
  nonzero range.
\<close>

definition n_rotations :: "swerve_module \<Rightarrow> int" where
  "n_rotations m =
    py_trunc ((real_of_int (selected_sensor_position (steer_talon m)) - steer_offset m)
              / real_of_int (steer_range m))"

definition unwrap_target :: "real \<Rightarrow> real \<Rightarrow> real" where
  "unwrap_target current_angle adjusted_target =
    (if \<bar>adjusted_target - current_angle\<bar> - pi > 5 / 10000 then
       (if adjusted_target > current_angle then adjusted_target - 2 * pi
        else adjusted_target + 2 * pi)
     else adjusted_target)"

definition shortest_path :: "real \<Rightarrow> real \<Rightarrow> real \<times> bool" where
  "shortest_path current_angle adjusted_target =
    (if \<bar>adjusted_target - current_angle\<bar> - (pi / 2) > 5 / 10000 then
       ((if adjusted_target > current_angle then adjusted_target - pi
         else adjusted_target + pi), True)
     else (adjusted_target, False))"

text \<open>\<^verbatim>\<open>set_steer_angle\<close>, lines 119-162.\<close>

definition set_steer_angle :: "robot \<Rightarrow> real \<Rightarrow> py_error + robot" where
  "set_steer_angle r angle_radians =
    (let m = self r
     in if steer_range m = 0 then Inl ZeroDivisionError
        else (case get_steer_angle r of
                Inl e \<Rightarrow> Inl e
              | Inr current_angle \<Rightarrow>
                 (let adjusted_target = angle_radians + real_of_int (n_rotations m) * 2 * pi;
                      adjusted_target = unwrap_target current_angle adjusted_target;
                      (adjusted_target, should_reverse_drive) =
                         shortest_path current_angle adjusted_target;
                      m1 = m\<lparr>steer_target := adjusted_target\<rparr>;
                      native_units = (steer_target m1 * 512 / pi) + steer_offset m1;
                      m2 = m1\<lparr>steer_talon :=
                               (steer_talon m1)\<lparr>last_set := Some (Position, native_units)\<rparr>\<rparr>;
                      m3 = m2\<lparr>drive_temp_flipped := should_reverse_drive\<rparr>
                  in Inr (r\<lparr>self := m3\<rparr>))))"

text \<open>\<^verbatim>\<open>set_drive_speed\<close>, lines 164-180.\<close>

definition set_drive_speed :: "robot \<Rightarrow> real \<Rightarrow> robot" where
  "set_drive_speed r percent_speed =
    (let m = self r;
         percent_speed = (if drive_reversed m then percent_speed * (- 1) else percent_speed);
         percent_speed = (if drive_temp_flipped m then percent_speed * (- 1) else percent_speed)
     in r\<lparr>self := m\<lparr>drive_talon :=
                      (drive_talon m)\<lparr>last_set := Some (PercentOutput, percent_speed)\<rparr>\<rparr>\<rparr>)"

text \<open>\<^verbatim>\<open>apply_control_values\<close>, lines 182-194.\<close>

definition apply_control_values :: "robot \<Rightarrow> real \<Rightarrow> real \<Rightarrow> py_error + robot" where
  "apply_control_values r angle_radians percent_speed =
    (case set_steer_angle r angle_radians of
       Inl e \<Rightarrow> Inl e
     | Inr r1 \<Rightarrow> Inr (set_drive_speed r1 percent_speed))"

text \<open>\<^verbatim>\<open>update_smart_dashboard\<close>, lines 196-219.\<close>

definition update_smart_dashboard :: "robot \<Rightarrow> robot" where
  "update_smart_dashboard r =
    (let m = self r;
         d1 = putNumber (name m @ '' Position'')
                ((talon_get (steer_talon m) - steer_offset m) * 180 / 512) (smart_dashboard r);
         d2 = putNumber (name m @ '' ADC'') (real_of_int (analog_in_raw (steer_talon m))) d1;
         d3 = putNumber (name m @ '' Target'') (steer_target m * 180 / pi) d2;
         d4 = putNumber (name m @ '' Steer Error'')
                (real_of_int (closed_loop_error (steer_talon m))) d3
     in r\<lparr>smart_dashboard := d4\<rparr>)"

section \<open>Concrete states used in the examples\<close>

text \<open>
  A controller that reports zero everywhere and has received nothing, and the module
  \<^verbatim>\<open>SwerveModule('fl', ...)\<close> constructed on two of them with an empty preference store:
  \<^verbatim>\<open>steer_offset = 0\<close>, \<^verbatim>\<open>steer_range = 1024\<close>, raw sensor reading 0.
\<close>

definition idle_talon :: talon_srx where
  "idle_talon = \<lparr>selected_sensor_position = 0, talon_get = 0, analog_in_raw = 0,
                  closed_loop_error = 0, selected_feedback_sensor = None,
                  profile_slot = None, last_set = None\<rparr>"

definition example_robot :: robot where
  "example_robot =
     SwerveModule_init apply_range_hack ''fl'' idle_talon idle_talon Map.empty Map.empty"

text \<open>The same state with the steering sensor reporting \<open>pos\<close>.\<close>

definition with_sensor :: "int \<Rightarrow> robot \<Rightarrow> robot" where
  "with_sensor pos r =
     r\<lparr>self := (self r)\<lparr>steer_talon :=
                   (steer_talon (self r))\<lparr>selected_sensor_position := pos\<rparr>\<rparr>\<rparr>"

text \<open>
  Shorthand for the margin of lines 72-75, \<^verbatim>\<open>int(actual_steer_range * 0.01)\<close>, as a
  function of the persisted bounds.
\<close>

definition hack_margin :: "preferences \<Rightarrow> string \<Rightarrow> real" where
  "hack_margin p nm =
     real_of_int (py_trunc (real_of_int (py_trunc (getFloat p (nm @ ''-max'') 1024
                                                   - getFloat p (nm @ ''-min'') 0)) * (1 / 100)))"

section \<open>States the program reaches\<close>

text \<open>
  The states of a module during the life of the program: it is constructed (line 54 runs
  \<^verbatim>\<open>load_config_values\<close> under the shipped flag), and then any of its methods is called,
  in any order. A call that raises leaves the state as it was. Between calls the
  environment may change what the two controllers report and hold, the preference store
  and the dashboard, but not the attributes of the module itself.
\<close>

inductive reachable :: "robot \<Rightarrow> bool" where
  init: "reachable (SwerveModule_init apply_range_hack nm steer drive p d)"
| load: "reachable r \<Longrightarrow> reachable (load_config_values apply_range_hack r)"
| save: "reachable r \<Longrightarrow> reachable (save_config_values apply_range_hack r)"
| steer: "reachable r \<Longrightarrow> set_steer_angle r a = Inr r' \<Longrightarrow> reachable r'"
| drive: "reachable r \<Longrightarrow> reachable (set_drive_speed r v)"
| control: "reachable r \<Longrightarrow> apply_control_values r a v = Inr r' \<Longrightarrow> reachable r'"
| dashboard: "reachable r \<Longrightarrow> reachable (update_smart_dashboard r)"
| environment:
    "reachable r \<Longrightarrow>
     reachable \<lparr>self = (self r)\<lparr>steer_talon := st, drive_talon := dt\<rparr>,
                prefs = p, smart_dashboard = d\<rparr>"

section \<open>Unfolded forms of the operations\<close>

lemma load_False:
  "load_config_values False r =
     r\<lparr>self := (self r)\<lparr>
        steer_talon := (steer_talon (self r))\<lparr>profile_slot := Some (0, 0)\<rparr>,
        steer_offset := getFloat (prefs r) (name (self r) @ ''-offset'') 0,
        steer_min := 0, steer_max := 1024, steer_range := 1024,
        drive_reversed := getBoolean (prefs r) (name (self r) @ ''-reversed'') False,
        steer_reversed := getBoolean (prefs r) (name (self r) @ ''-steer-reversed'') False\<rparr>\<rparr>"
  by (simp add: load_config_values_def Let_def)

lemma load_True:
  "load_config_values True r =
     r\<lparr>self := (self r)\<lparr>
        steer_talon := (steer_talon (self r))\<lparr>profile_slot := Some (0, 0)\<rparr>,
        steer_min := getFloat (prefs r) (name (self r) @ ''-min'') 0
                       + hack_margin (prefs r) (name (self r)),
        steer_max := getFloat (prefs r) (name (self r) @ ''-max'') 1024
                       - hack_margin (prefs r) (name (self r)),
        steer_offset := getFloat (prefs r) (name (self r) @ ''-offset'') 0
                       - (getFloat (prefs r) (name (self r) @ ''-min'') 0
                          + hack_margin (prefs r) (name (self r))),
        steer_range := py_trunc ((getFloat (prefs r) (name (self r) @ ''-max'') 1024
                                   - hack_margin (prefs r) (name (self r)))
                                - (getFloat (prefs r) (name (self r) @ ''-min'') 0
                                   + hack_margin (prefs r) (name (self r)))),
        drive_reversed := getBoolean (prefs r) (name (self r) @ ''-reversed'') False,
        steer_reversed := getBoolean (prefs r) (name (self r) @ ''-steer-reversed'') False\<rparr>\<rparr>"
  unfolding load_config_values_def hack_margin_def Let_def by simp

lemma example_robot_self:
  "self example_robot =
     \<lparr>steer_talon = idle_talon\<lparr>selected_feedback_sensor := Some (Analog, 0, 0),
                                  profile_slot := Some (0, 0)\<rparr>,
      drive_talon = idle_talon, name = ''fl'',
      steer_target = 0, steer_target_native = 0, drive_temp_flipped = False,
      steer_offset = 0, steer_min = 0, steer_max = 1024, steer_range = 1024,
      drive_reversed = False, steer_reversed = False\<rparr>"
  by (simp add: example_robot_def SwerveModule_init_def apply_range_hack_def load_False
      getFloat_def getBoolean_def)

lemma example_robot_eq:
  "example_robot = \<lparr>self = self example_robot, prefs = Map.empty, smart_dashboard = Map.empty\<rparr>"
  by (simp add: example_robot_def SwerveModule_init_def apply_range_hack_def load_False)

lemma save_prefs:
  "prefs (save_config_values hack r) =
     (if hack then
        (prefs r)(name (self r) @ ''-offset'' \<mapsto> PFloat (steer_offset (self r)),
                  name (self r) @ ''-reversed'' \<mapsto> PBool (drive_reversed (self r)),
                  name (self r) @ ''-min'' \<mapsto> PFloat (steer_min (self r)),
                  name (self r) @ ''-max'' \<mapsto> PFloat (steer_max (self r)))
      else
        (prefs r)(name (self r) @ ''-offset'' \<mapsto> PFloat (steer_offset (self r)),
                  name (self r) @ ''-reversed'' \<mapsto> PBool (drive_reversed (self r))))"
  by (simp add: save_config_values_def Let_def putFloat_def putBoolean_def)

lemma save_self: "self (save_config_values hack r) = self r"
  by (simp add: save_config_values_def Let_def)

lemma get_steer_angle_Inr_range:
  "get_steer_angle r = Inr cur \<Longrightarrow> steer_range (self r) \<noteq> 0"
  by (auto simp: get_steer_angle_def Let_def split: if_splits)

lemma set_steer_angle_unfold:
  assumes "get_steer_angle r = Inr cur"
  shows "set_steer_angle r a =
     Inr (r\<lparr>self := (self r)\<lparr>
        steer_target :=
          fst (shortest_path cur
                 (unwrap_target cur (a + real_of_int (n_rotations (self r)) * 2 * pi))),
        steer_talon := (steer_talon (self r))\<lparr>last_set := Some (Position,
          fst (shortest_path cur
                 (unwrap_target cur (a + real_of_int (n_rotations (self r)) * 2 * pi)))
            * 512 / pi + steer_offset (self r))\<rparr>,
        drive_temp_flipped :=
          snd (shortest_path cur
                 (unwrap_target cur (a + real_of_int (n_rotations (self r)) * 2 * pi)))\<rparr>\<rparr>)"
  using assms get_steer_angle_Inr_range [OF assms]
  by (simp add: set_steer_angle_def Let_def split_beta)

lemma set_steer_angle_eval:
  assumes "get_steer_angle r = Inr cur"
      and "n_rotations (self r) = n"
      and "unwrap_target cur (a + real_of_int n * 2 * pi) = u"
      and "shortest_path cur u = (t, b)"
  shows "set_steer_angle r a =
     Inr (r\<lparr>self := (self r)\<lparr>
        steer_target := t,
        steer_talon := (steer_talon (self r))\<lparr>last_set :=
           Some (Position, t * 512 / pi + steer_offset (self r))\<rparr>,
        drive_temp_flipped := b\<rparr>\<rparr>)"
  unfolding set_steer_angle_unfold [OF assms(1)] assms(2) assms(3) assms(4) by simp

lemma set_steer_angle_Inr_cur:
  "set_steer_angle r a = Inr r' \<Longrightarrow> \<exists>cur. get_steer_angle r = Inr cur"
  by (auto simp: set_steer_angle_def Let_def split: if_splits sum.splits)

lemma get_example: "get_steer_angle example_robot = Inr 0"
  by (simp add: get_steer_angle_def Let_def example_robot_self idle_talon_def)

lemma n_rotations_example: "n_rotations (self example_robot) = 0"
  by (simp add: n_rotations_def example_robot_self idle_talon_def py_trunc_def)

section \<open>Shortest-path bound\<close>

text \<open>
  The distance between the turn-adjusted target and the current angle: the truncation
  leaves a fraction of a turn of magnitude below one, so the distance is below
  \<open>\<bar>angle_radians\<bar> + 2\<pi>\<close>, which for an input in \<open>[-2\<pi>, 2\<pi>]\<close> can come close to
  \<open>4\<pi>\<close>.
\<close>

lemma py_trunc_frac: "\<bar>x - real_of_int (py_trunc x)\<bar> < 1"
  unfolding py_trunc_def by (simp split: if_splits) linarith

lemma turn_frame_distance:
  assumes g: "get_steer_angle r = Inr cur"
  shows "\<bar>(a + real_of_int (n_rotations (self r)) * 2 * pi) - cur\<bar> < \<bar>a\<bar> + 2 * pi"
proof -
  define x where
    "x = (real_of_int (selected_sensor_position (steer_talon (self r))) - steer_offset (self r))
           / real_of_int (steer_range (self r))"
  have n: "n_rotations (self r) = py_trunc x"
    by (simp add: n_rotations_def x_def)
  have c: "cur = x * 2 * pi"
    using g by (auto simp: get_steer_angle_def Let_def x_def split: if_splits)
  have "\<bar>(x - real_of_int (py_trunc x)) * (2 * pi)\<bar> = \<bar>x - real_of_int (py_trunc x)\<bar> * (2 * pi)"
    by (simp add: abs_mult)
  also have "\<dots> < 1 * (2 * pi)"
    by (rule mult_strict_right_mono [OF py_trunc_frac]) simp
  finally have f: "\<bar>(x - real_of_int (py_trunc x)) * (2 * pi)\<bar> < 2 * pi" by simp
  have "(a + real_of_int (n_rotations (self r)) * 2 * pi) - cur
          = a - (x - real_of_int (py_trunc x)) * (2 * pi)"
    by (simp add: n c algebra_simps)
  with f show ?thesis by linarith
qed

text \<open>
  One full-turn shift and one half-turn shift bring the target within \<open>\<pi>/2 + 0.0005\<close>
  of the current angle exactly when the distance before the unwrapping is at most
  \<open>7\<pi>/2 + 0.0005\<close>.
\<close>

lemma shortest_path_bound:
  assumes "\<bar>t0 - cur\<bar> \<le> 7 * pi / 2 + 5 / 10000"
  shows "\<bar>fst (shortest_path cur (unwrap_target cur t0)) - cur\<bar> \<le> pi / 2 + 5 / 10000"
  using assms pi_ge_two
  unfolding shortest_path_def unwrap_target_def
  by (simp split: if_splits) linarith

lemma shortest_path_bound_exceeded:
  assumes "7 * pi / 2 + 5 / 10000 < \<bar>t0 - cur\<bar>" and "\<bar>t0 - cur\<bar> \<le> 4 * pi"
  shows "pi / 2 + 5 / 10000 < \<bar>fst (shortest_path cur (unwrap_target cur t0)) - cur\<bar>"
  using assms pi_ge_two
  unfolding shortest_path_def unwrap_target_def
  by (simp split: if_splits) linarith

text \<open>
  Hence the bound holds for every input angle in \<open>[-3\<pi>/2, 3\<pi>/2]\<close>, whatever the
  sensor reads.
\<close>

lemma set_steer_angle_bound:
  assumes g: "get_steer_angle r = Inr cur"
      and a: "\<bar>a\<bar> \<le> 3 * pi / 2"
      and s: "set_steer_angle r a = Inr r'"
  shows "\<bar>steer_target (self r') - cur\<bar> \<le> pi / 2 + 5 / 10000"
proof -
  have "\<bar>(a + real_of_int (n_rotations (self r)) * 2 * pi) - cur\<bar> \<le> 7 * pi / 2 + 5 / 10000"
    using turn_frame_distance [OF g, of a] a by linarith
  from shortest_path_bound [OF this] s show ?thesis
    unfolding set_steer_angle_unfold [OF g] by auto
qed

lemma get_896: "get_steer_angle (with_sensor 896 example_robot) = Inr (7 * pi / 4)"
  by (simp add: get_steer_angle_def Let_def example_robot_self with_sensor_def)

lemma n_rotations_896: "n_rotations (self (with_sensor 896 example_robot)) = 0"
  by (simp add: n_rotations_def example_robot_self with_sensor_def py_trunc_def)

lemma unwrap_896: "unwrap_target (7 * pi / 4) (- 2 * pi + real_of_int 0 * 2 * pi) = 0"
  using pi_ge_two by (simp add: unwrap_target_def)

lemma shortest_896: "shortest_path (7 * pi / 4) 0 = (pi, True)"
  using pi_ge_two by (simp add: shortest_path_def)

text \<open>
  C1. For every sensor reading and every input angle in \<open>[-2\<pi>, 2\<pi>]\<close>, after
  \<^verbatim>\<open>set_steer_angle\<close> the stored \<^verbatim>\<open>steer_target\<close> is within \<open>\<pi>/2 + 0.0005\<close> of the
  current unwrapped angle. The code does not achieve this: with \<^verbatim>\<open>steer_range = 1024\<close>,
  \<^verbatim>\<open>steer_offset = 0\<close> and the sensor at 896 the current angle is \<open>7\<pi>/4\<close>, and
  \<^verbatim>\<open>set_steer_angle(-2\<pi>)\<close> stores the target \<open>\<pi>\<close> (native setpoint 512, drive flipped),
  which is \<open>3\<pi>/4\<close> away.
\<close>

theorem set_steer_angle_exceeds_quarter_turn:
  "get_steer_angle (with_sensor 896 example_robot) = Inr (7 * pi / 4)
   \<and> - 2 * pi \<in> {- 2 * pi .. 2 * pi}
   \<and> set_steer_angle (with_sensor 896 example_robot) (- 2 * pi) =
        Inr ((with_sensor 896 example_robot)\<lparr>self := (self (with_sensor 896 example_robot))\<lparr>
               steer_target := pi,
               steer_talon := (steer_talon (self (with_sensor 896 example_robot)))
                                \<lparr>last_set := Some (Position, 512)\<rparr>,
               drive_temp_flipped := True\<rparr>\<rparr>)
   \<and> \<bar>pi - 7 * pi / 4\<bar> = 3 * pi / 4
   \<and> \<not> \<bar>pi - 7 * pi / 4\<bar> \<le> pi / 2 + 5 / 10000"
proof -
  have o: "steer_offset (self (with_sensor 896 example_robot)) = 0"
    by (simp add: with_sensor_def example_robot_self)
  have "set_steer_angle (with_sensor 896 example_robot) (- 2 * pi) =
        Inr ((with_sensor 896 example_robot)\<lparr>self := (self (with_sensor 896 example_robot))\<lparr>
               steer_target := pi,
               steer_talon := (steer_talon (self (with_sensor 896 example_robot)))
                                \<lparr>last_set := Some (Position, 512)\<rparr>,
               drive_temp_flipped := True\<rparr>\<rparr>)"
    unfolding set_steer_angle_eval [OF get_896 n_rotations_896 unwrap_896 shortest_896] o
    by simp
  moreover have "\<not> \<bar>pi - 7 * pi / 4\<bar> \<le> pi / 2 + 5 / 10000"
    using pi_ge_two by simp
  moreover have "\<bar>pi - 7 * pi / 4\<bar> = 3 * pi / 4"
    by simp
  ultimately show ?thesis
    using get_896 by simp
qed

section \<open>Flip decision\<close>

text \<open>
  C2. Every call of \<^verbatim>\<open>set_steer_angle\<close> assigns \<^verbatim>\<open>drive_temp_flipped\<close> anew (the result
  does not depend on its previous value), and it ends true if and only if the distance
  between the unwrapped, not yet flipped target and the current angle is strictly greater
  than \<open>\<pi>/2 + 0.0005\<close>, so a distance exactly at the boundary does not flip. When it is
  true the stored \<^verbatim>\<open>steer_target\<close> is the unwrapped target moved by exactly \<open>\<pi>\<close> toward
  the current angle; when it is false the stored target is the unwrapped target.
\<close>

theorem drive_temp_flipped_iff:
  assumes g: "get_steer_angle r = Inr cur"
      and s: "set_steer_angle r a = Inr r'"
      and u: "u = unwrap_target cur (a + real_of_int (n_rotations (self r)) * 2 * pi)"
  shows "drive_temp_flipped (self r') = (pi / 2 + 5 / 10000 < \<bar>u - cur\<bar>)
       \<and> (\<bar>u - cur\<bar> = pi / 2 + 5 / 10000 \<longrightarrow> \<not> drive_temp_flipped (self r'))
       \<and> (drive_temp_flipped (self r') \<longrightarrow>
             u \<noteq> cur
             \<and> (cur < u \<longrightarrow> steer_target (self r') = u - pi)
             \<and> (u < cur \<longrightarrow> steer_target (self r') = u + pi))
       \<and> (\<not> drive_temp_flipped (self r') \<longrightarrow> steer_target (self r') = u)
       \<and> set_steer_angle (r\<lparr>self := (self r)\<lparr>drive_temp_flipped := b\<rparr>\<rparr>) a = Inr r'"
proof -
  have "get_steer_angle (r\<lparr>self := (self r)\<lparr>drive_temp_flipped := b\<rparr>\<rparr>) = get_steer_angle r"
    by (simp add: get_steer_angle_def Let_def)
  with g have g': "get_steer_angle (r\<lparr>self := (self r)\<lparr>drive_temp_flipped := b\<rparr>\<rparr>) = Inr cur"
    by simp
  have n': "n_rotations (self (r\<lparr>self := (self r)\<lparr>drive_temp_flipped := b\<rparr>\<rparr>))
              = n_rotations (self r)"
    by (simp add: n_rotations_def)
  have anew: "set_steer_angle (r\<lparr>self := (self r)\<lparr>drive_temp_flipped := b\<rparr>\<rparr>) a = Inr r'"
    using s unfolding set_steer_angle_unfold [OF g] set_steer_angle_unfold [OF g'] n'
    by auto
  have t: "steer_target (self r') = fst (shortest_path cur u)"
    and f: "drive_temp_flipped (self r') = snd (shortest_path cur u)"
    using s unfolding set_steer_angle_unfold [OF g] u by auto
  have "pi / 2 + 5 / 10000 < \<bar>u - cur\<bar> \<Longrightarrow> u \<noteq> cur"
    using pi_ge_two by auto
  then show ?thesis
    unfolding t f using anew by (auto simp: shortest_path_def)
qed

theorem drive_temp_flipped_iff_witness:
  "get_steer_angle example_robot = Inr 0
   \<and> set_steer_angle example_robot pi =
       Inr (example_robot\<lparr>self := (self example_robot)\<lparr>
              steer_target := 0,
              steer_talon := (steer_talon (self example_robot))\<lparr>last_set := Some (Position, 0)\<rparr>,
              drive_temp_flipped := True\<rparr>\<rparr>)
   \<and> unwrap_target 0 (pi + real_of_int (n_rotations (self example_robot)) * 2 * pi) = pi
   \<and> pi / 2 + 5 / 10000 < \<bar>pi - 0\<bar>"
proof -
  have un: "unwrap_target 0 (pi + real_of_int 0 * 2 * pi) = pi"
    using pi_ge_two by (simp add: unwrap_target_def)
  have sh: "shortest_path 0 pi = (0, True)"
    using pi_ge_two by (simp add: shortest_path_def)
  have o: "steer_offset (self example_robot) = 0"
    by (simp add: example_robot_self)
  have st: "set_steer_angle example_robot pi =
       Inr (example_robot\<lparr>self := (self example_robot)\<lparr>
              steer_target := 0,
              steer_talon := (steer_talon (self example_robot))\<lparr>last_set := Some (Position, 0)\<rparr>,
              drive_temp_flipped := True\<rparr>\<rparr>)"
    unfolding set_steer_angle_eval [OF get_example n_rotations_example un sh] o by simp
  have un': "pi = unwrap_target 0 (pi + real_of_int (n_rotations (self example_robot)) * 2 * pi)"
    using un by (simp add: n_rotations_example)
  from drive_temp_flipped_iff [OF get_example st un', of True] get_example st un'
  show ?thesis by simp
qed

section \<open>Native setpoint\<close>

lemma set_steer_angle_quarter_pi:
  "set_steer_angle example_robot (pi / 4) =
     Inr (example_robot\<lparr>self := (self example_robot)\<lparr>
            steer_target := pi / 4,
            steer_talon := (steer_talon (self example_robot))\<lparr>last_set := Some (Position, 128)\<rparr>,
            drive_temp_flipped := False\<rparr>\<rparr>)"
proof -
  have un: "unwrap_target 0 (pi / 4 + real_of_int 0 * 2 * pi) = pi / 4"
    using pi_ge_two by (simp add: unwrap_target_def)
  have sh: "shortest_path 0 (pi / 4) = (pi / 4, False)"
    using pi_ge_two by (simp add: shortest_path_def)
  have o: "steer_offset (self example_robot) = 0"
    by (simp add: example_robot_self)
  show ?thesis
    unfolding set_steer_angle_eval [OF get_example n_rotations_example un sh] o by simp
qed

text \<open>
  C3. The native position setpoint that \<^verbatim>\<open>set_steer_angle\<close> sends to the steering
  controller is \<open>steer_target * 512 / \<pi> + steer_offset\<close>; the scale \<open>512/\<pi>\<close> is a fixed
  constant in which \<^verbatim>\<open>steer_range\<close> does not occur. With \<^verbatim>\<open>steer_range = 1024\<close>, raw
  sensor 0 and \<^verbatim>\<open>steer_offset = 0\<close>, \<^verbatim>\<open>set_steer_angle(\<pi>/4)\<close> sends 128, and it sends
  the same 128 when \<^verbatim>\<open>steer_range\<close> is 2048 instead.
\<close>

theorem native_setpoint:
  "(set_steer_angle r a = Inr r' \<longrightarrow>
      last_set (steer_talon (self r'))
        = Some (Position, steer_target (self r') * 512 / pi + steer_offset (self r'))
      \<and> steer_offset (self r') = steer_offset (self r))
   \<and> steer_range (self example_robot) = 1024
   \<and> set_steer_angle example_robot (pi / 4) =
       Inr (example_robot\<lparr>self := (self example_robot)\<lparr>
              steer_target := pi / 4,
              steer_talon := (steer_talon (self example_robot))\<lparr>last_set := Some (Position, 128)\<rparr>,
              drive_temp_flipped := False\<rparr>\<rparr>)
   \<and> set_steer_angle (example_robot\<lparr>self := (self example_robot)\<lparr>steer_range := 2048\<rparr>\<rparr>) (pi / 4) =
       Inr (example_robot\<lparr>self := (self example_robot)\<lparr>
              steer_range := 2048,
              steer_target := pi / 4,
              steer_talon := (steer_talon (self example_robot))\<lparr>last_set := Some (Position, 128)\<rparr>,
              drive_temp_flipped := False\<rparr>\<rparr>)"
proof -
  have gen: "last_set (steer_talon (self r'))
        = Some (Position, steer_target (self r') * 512 / pi + steer_offset (self r'))
      \<and> steer_offset (self r') = steer_offset (self r)"
    if s: "set_steer_angle r a = Inr r'"
  proof -
    from s obtain cur where c: "get_steer_angle r = Inr cur"
      using set_steer_angle_Inr_cur by blast
    from s show ?thesis
      unfolding set_steer_angle_unfold [OF c] by auto
  qed
  have g2: "get_steer_angle (example_robot\<lparr>self := (self example_robot)\<lparr>steer_range := 2048\<rparr>\<rparr>) = Inr 0"
    by (simp add: get_steer_angle_def Let_def example_robot_self idle_talon_def)
  have n2: "n_rotations (self (example_robot\<lparr>self := (self example_robot)\<lparr>steer_range := 2048\<rparr>\<rparr>)) = 0"
    by (simp add: n_rotations_def example_robot_self idle_talon_def py_trunc_def)
  have un: "unwrap_target 0 (pi / 4 + real_of_int 0 * 2 * pi) = pi / 4"
    using pi_ge_two by (simp add: unwrap_target_def)
  have sh: "shortest_path 0 (pi / 4) = (pi / 4, False)"
    using pi_ge_two by (simp add: shortest_path_def)
  have o: "steer_offset (self example_robot) = 0"
    by (simp add: example_robot_self)
  have e2: "set_steer_angle (example_robot\<lparr>self := (self example_robot)\<lparr>steer_range := 2048\<rparr>\<rparr>) (pi / 4) =
       Inr (example_robot\<lparr>self := (self example_robot)\<lparr>
              steer_range := 2048,
              steer_target := pi / 4,
              steer_talon := (steer_talon (self example_robot))\<lparr>last_set := Some (Position, 128)\<rparr>,
              drive_temp_flipped := False\<rparr>\<rparr>)"
    unfolding set_steer_angle_eval [OF g2 n2 un sh] by (simp add: o)
  have r1: "steer_range (self example_robot) = 1024"
    by (simp add: example_robot_self)
  from gen r1 set_steer_angle_quarter_pi e2 show ?thesis by blast
qed

theorem native_setpoint_witness:
  "set_steer_angle example_robot (pi / 4) =
     Inr (example_robot\<lparr>self := (self example_robot)\<lparr>
            steer_target := pi / 4,
            steer_talon := (steer_talon (self example_robot))\<lparr>last_set := Some (Position, 128)\<rparr>,
            drive_temp_flipped := False\<rparr>\<rparr>)
   \<and> (pi / 4) * 512 / pi + steer_offset (self example_robot) = 128"
  using native_setpoint [of example_robot "pi / 4"
      "example_robot\<lparr>self := (self example_robot)\<lparr>
            steer_target := pi / 4,
            steer_talon := (steer_talon (self example_robot))\<lparr>last_set := Some (Position, 128)\<rparr>,
            drive_temp_flipped := False\<rparr>\<rparr>"]
    set_steer_angle_quarter_pi
  by simp

section \<open>Configuration persistence\<close>

text \<open>
  C5. With range-hack mode disabled, \<^verbatim>\<open>save_config_values()\<close> followed by a fresh
  \<^verbatim>\<open>load_config_values()\<close> of a module of the same name against the same preference
  store restores \<^verbatim>\<open>steer_offset\<close> and \<^verbatim>\<open>drive_reversed\<close> to their values at save time.
\<close>

theorem save_load_round_trip:
  assumes "name (self r') = name (self r)"
      and "prefs r' = prefs (save_config_values False r)"
  shows "steer_offset (self (load_config_values False r')) = steer_offset (self r)
       \<and> drive_reversed (self (load_config_values False r')) = drive_reversed (self r)"
  using assms by (simp add: load_False save_prefs getFloat_def getBoolean_def)

theorem save_load_round_trip_witness:
  "steer_offset (self (load_config_values False
      ((save_config_values False
         (example_robot\<lparr>self := (self example_robot)\<lparr>steer_offset := 37, drive_reversed := True\<rparr>\<rparr>))
       \<lparr>self := self example_robot\<rparr>))) = 37
   \<and> drive_reversed (self (load_config_values False
      ((save_config_values False
         (example_robot\<lparr>self := (self example_robot)\<lparr>steer_offset := 37, drive_reversed := True\<rparr>\<rparr>))
       \<lparr>self := self example_robot\<rparr>))) = True"
  using save_load_round_trip [of "(save_config_values False
         (example_robot\<lparr>self := (self example_robot)\<lparr>steer_offset := 37, drive_reversed := True\<rparr>\<rparr>))
            \<lparr>self := self example_robot\<rparr>"
       "example_robot\<lparr>self := (self example_robot)\<lparr>steer_offset := 37, drive_reversed := True\<rparr>\<rparr>"]
  by (simp add: example_robot_self)

text \<open>
  C9. \<^verbatim>\<open>save_config_values\<close> writes the keys \<^verbatim>\<open>name+'-offset'\<close> and
  \<^verbatim>\<open>name+'-reversed'\<close>, and with range-hack mode enabled also \<^verbatim>\<open>name+'-min'\<close> and
  \<^verbatim>\<open>name+'-max'\<close>; every other entry of the store, the \<^verbatim>\<open>name+'-steer-reversed'\<close>
  entry among them, is left as it was, and so are the module and the dashboard.
\<close>

theorem save_config_values_writes:
  "(\<forall>k. k \<notin> {name (self r) @ ''-offset'', name (self r) @ ''-reversed''}
             \<union> (if hack then {name (self r) @ ''-min'', name (self r) @ ''-max''} else {})
        \<longrightarrow> prefs (save_config_values hack r) k = prefs r k)
   \<and> prefs (save_config_values hack r) (name (self r) @ ''-offset'')
        = Some (PFloat (steer_offset (self r)))
   \<and> prefs (save_config_values hack r) (name (self r) @ ''-reversed'')
        = Some (PBool (drive_reversed (self r)))
   \<and> (hack \<longrightarrow> prefs (save_config_values hack r) (name (self r) @ ''-min'')
                  = Some (PFloat (steer_min (self r)))
              \<and> prefs (save_config_values hack r) (name (self r) @ ''-max'')
                  = Some (PFloat (steer_max (self r))))
   \<and> (\<not> hack \<longrightarrow> prefs (save_config_values hack r) (name (self r) @ ''-min'')
                  = prefs r (name (self r) @ ''-min'')
              \<and> prefs (save_config_values hack r) (name (self r) @ ''-max'')
                  = prefs r (name (self r) @ ''-max''))
   \<and> prefs (save_config_values hack r) (name (self r) @ ''-steer-reversed'')
        = prefs r (name (self r) @ ''-steer-reversed'')
   \<and> self (save_config_values hack r) = self r
   \<and> smart_dashboard (save_config_values hack r) = smart_dashboard r"
  by (simp add: save_prefs save_self) (simp add: save_config_values_def Let_def)

theorem save_config_values_writes_witness:
  "prefs (save_config_values False example_robot) ''fl-offset'' = Some (PFloat 0)
   \<and> prefs (save_config_values False example_robot) ''fl-reversed'' = Some (PBool False)
   \<and> prefs (save_config_values False example_robot) ''fl-min'' = None
   \<and> prefs (save_config_values False example_robot) ''fl-max'' = None
   \<and> prefs (save_config_values False example_robot) ''fl-steer-reversed'' = None
   \<and> prefs (save_config_values False example_robot) ''fr-offset'' = None"
proof -
  have p: "prefs example_robot = Map.empty"
    using example_robot_eq by (metis robot.select_convs(2))
  from save_config_values_writes [of example_robot False] show ?thesis
    by (simp add: example_robot_self p)
qed

section \<open>Steering range\<close>

lemma steer_range_load: "steer_range (self (load_config_values False r)) = 1024"
  by (simp add: load_False)

lemma steer_range_init: "steer_range (self (SwerveModule_init False nm steer drive p d)) = 1024"
  by (simp add: SwerveModule_init_def steer_range_load)

lemma steer_range_save:
  "steer_range (self (save_config_values hack r)) = steer_range (self r)"
  by (simp add: save_self)

lemma steer_range_set_drive_speed:
  "steer_range (self (set_drive_speed r v)) = steer_range (self r)"
  by (simp add: set_drive_speed_def Let_def)

lemma steer_range_update_smart_dashboard:
  "steer_range (self (update_smart_dashboard r)) = steer_range (self r)"
  by (simp add: update_smart_dashboard_def Let_def)

lemma steer_range_set_steer_angle:
  assumes "set_steer_angle r a = Inr r'"
  shows "steer_range (self r') = steer_range (self r)"
proof -
  from assms obtain cur where c: "get_steer_angle r = Inr cur"
    using set_steer_angle_Inr_cur by blast
  from assms show ?thesis
    unfolding set_steer_angle_unfold [OF c] by auto
qed

lemma steer_range_apply_control_values:
  assumes "apply_control_values r a v = Inr r'"
  shows "steer_range (self r') = steer_range (self r)"
proof (cases "set_steer_angle r a")
  case (Inl e)
  with assms show ?thesis by (simp add: apply_control_values_def)
next
  case (Inr r1)
  with assms have "r' = set_drive_speed r1 v"
    by (simp add: apply_control_values_def)
  then show ?thesis
    using steer_range_set_steer_angle [OF Inr] by (simp add: steer_range_set_drive_speed)
qed

lemma get_steer_angle_no_raise:
  "steer_range (self r) \<noteq> 0 \<Longrightarrow> get_steer_angle r \<noteq> Inl ZeroDivisionError"
  by (simp add: get_steer_angle_def Let_def)

lemma set_steer_angle_no_raise:
  "steer_range (self r) \<noteq> 0 \<Longrightarrow> set_steer_angle r a \<noteq> Inl ZeroDivisionError"
  by (simp add: set_steer_angle_def get_steer_angle_def Let_def split_beta)

lemma apply_control_values_no_raise:
  "steer_range (self r) \<noteq> 0 \<Longrightarrow> apply_control_values r a v \<noteq> Inl ZeroDivisionError"
  using set_steer_angle_no_raise [of r a]
  by (cases "set_steer_angle r a") (auto simp: apply_control_values_def)

lemma reachable_steer_range: "reachable r \<Longrightarrow> steer_range (self r) = 1024"
proof (induction rule: reachable.induct)
  case (init nm steer drive p d)
  show ?case by (simp add: apply_range_hack_def steer_range_init)
next
  case (load r)
  show ?case by (simp add: apply_range_hack_def steer_range_load)
next
  case (save r)
  then show ?case by (simp add: steer_range_save)
next
  case (steer r a r')
  then show ?case by (simp add: steer_range_set_steer_angle)
next
  case (drive r v)
  then show ?case by (simp add: steer_range_set_drive_speed)
next
  case (control r a v r')
  then show ?case by (simp add: steer_range_apply_control_values)
next
  case (dashboard r)
  then show ?case by (simp add: steer_range_update_smart_dashboard)
next
  case (environment r st dt p d)
  then show ?case by simp
qed

text \<open>
  C8. After construction and after every call of \<^verbatim>\<open>load_config_values\<close>,
  \<^verbatim>\<open>steer_range\<close> is strictly positive: range-hack mode is disabled
  (\<^verbatim>\<open>_apply_range_hack = False\<close>), and then \<^verbatim>\<open>steer_range\<close> is 1024 (with
  \<^verbatim>\<open>steer_min = 0\<close> and \<^verbatim>\<open>steer_max = 1024\<close>) whatever the store holds under
  \<^verbatim>\<open>name+'-min'\<close> and \<^verbatim>\<open>name+'-max'\<close>, so neither \<^verbatim>\<open>get_steer_angle\<close> nor
  \<^verbatim>\<open>set_steer_angle\<close> divides by zero. No other operation assigns \<^verbatim>\<open>steer_range\<close>:
  \<^verbatim>\<open>save_config_values\<close>, \<^verbatim>\<open>set_drive_speed\<close>, \<^verbatim>\<open>update_smart_dashboard\<close>,
  \<^verbatim>\<open>set_steer_angle\<close> and \<^verbatim>\<open>apply_control_values\<close> leave it as it was. Hence in every
  state the program reaches \<^verbatim>\<open>steer_range\<close> is 1024 and the divisions are always
  well-defined.
\<close>

theorem steer_range_positive:
  "\<not> apply_range_hack
   \<and> steer_range (self (SwerveModule_init apply_range_hack nm steer drive p d)) = 1024
   \<and> 0 < steer_range (self (SwerveModule_init apply_range_hack nm steer drive p d))
   \<and> steer_range (self (load_config_values apply_range_hack r)) = 1024
   \<and> 0 < steer_range (self (load_config_values apply_range_hack r))
   \<and> steer_range (self (load_config_values False
        (r\<lparr>prefs := (prefs r)(name (self r) @ ''-min'' \<mapsto> PFloat lo,
                              name (self r) @ ''-max'' \<mapsto> PFloat hi)\<rparr>))) = 1024
   \<and> steer_min (self (load_config_values False
        (r\<lparr>prefs := (prefs r)(name (self r) @ ''-min'' \<mapsto> PFloat lo,
                              name (self r) @ ''-max'' \<mapsto> PFloat hi)\<rparr>))) = 0
   \<and> steer_max (self (load_config_values False
        (r\<lparr>prefs := (prefs r)(name (self r) @ ''-min'' \<mapsto> PFloat lo,
                              name (self r) @ ''-max'' \<mapsto> PFloat hi)\<rparr>))) = 1024
   \<and> get_steer_angle (load_config_values apply_range_hack r) \<noteq> Inl ZeroDivisionError
   \<and> set_steer_angle (load_config_values apply_range_hack r) a \<noteq> Inl ZeroDivisionError
   \<and> get_steer_angle (SwerveModule_init apply_range_hack nm steer drive p d)
        \<noteq> Inl ZeroDivisionError
   \<and> set_steer_angle (SwerveModule_init apply_range_hack nm steer drive p d) a
        \<noteq> Inl ZeroDivisionError
   \<and> steer_range (self (save_config_values hack r)) = steer_range (self r)
   \<and> steer_range (self (set_drive_speed r v)) = steer_range (self r)
   \<and> steer_range (self (update_smart_dashboard r)) = steer_range (self r)
   \<and> (set_steer_angle r a = Inr r' \<longrightarrow> steer_range (self r') = steer_range (self r))
   \<and> (apply_control_values r a v = Inr r' \<longrightarrow> steer_range (self r') = steer_range (self r))
   \<and> (reachable q \<longrightarrow>
         steer_range (self q) = 1024
         \<and> 0 < steer_range (self q)
         \<and> get_steer_angle q \<noteq> Inl ZeroDivisionError
         \<and> set_steer_angle q a \<noteq> Inl ZeroDivisionError
         \<and> apply_control_values q a v \<noteq> Inl ZeroDivisionError)"
proof -
  have l: "steer_range (self (load_config_values False q)) = 1024" for q
    by (rule steer_range_load)
  have i: "steer_range (self (SwerveModule_init False nm steer drive p d)) = 1024"
    by (rule steer_range_init)
  have g: "get_steer_angle q \<noteq> Inl ZeroDivisionError" if "steer_range (self q) = 1024" for q
    using that by (simp add: get_steer_angle_no_raise)
  have s: "set_steer_angle q a \<noteq> Inl ZeroDivisionError" if "steer_range (self q) = 1024" for q
    using that by (simp add: set_steer_angle_no_raise)
  have c: "apply_control_values q a v \<noteq> Inl ZeroDivisionError"
    if "steer_range (self q) = 1024" for q
    using that by (simp add: apply_control_values_no_raise)
  have m: "steer_min (self (load_config_values False q)) = 0
         \<and> steer_max (self (load_config_values False q)) = 1024" for q
    by (simp add: load_False)
  have first: "\<not> apply_range_hack
   \<and> steer_range (self (SwerveModule_init apply_range_hack nm steer drive p d)) = 1024
   \<and> 0 < steer_range (self (SwerveModule_init apply_range_hack nm steer drive p d))
   \<and> steer_range (self (load_config_values apply_range_hack r)) = 1024
   \<and> 0 < steer_range (self (load_config_values apply_range_hack r))
   \<and> steer_range (self (load_config_values False
        (r\<lparr>prefs := (prefs r)(name (self r) @ ''-min'' \<mapsto> PFloat lo,
                              name (self r) @ ''-max'' \<mapsto> PFloat hi)\<rparr>))) = 1024
   \<and> steer_min (self (load_config_values False
        (r\<lparr>prefs := (prefs r)(name (self r) @ ''-min'' \<mapsto> PFloat lo,
                              name (self r) @ ''-max'' \<mapsto> PFloat hi)\<rparr>))) = 0
   \<and> steer_max (self (load_config_values False
        (r\<lparr>prefs := (prefs r)(name (self r) @ ''-min'' \<mapsto> PFloat lo,
                              name (self r) @ ''-max'' \<mapsto> PFloat hi)\<rparr>))) = 1024
   \<and> get_steer_angle (load_config_values apply_range_hack r) \<noteq> Inl ZeroDivisionError
   \<and> set_steer_angle (load_config_values apply_range_hack r) a \<noteq> Inl ZeroDivisionError
   \<and> get_steer_angle (SwerveModule_init apply_range_hack nm steer drive p d)
        \<noteq> Inl ZeroDivisionError
   \<and> set_steer_angle (SwerveModule_init apply_range_hack nm steer drive p d) a
        \<noteq> Inl ZeroDivisionError"
    unfolding apply_range_hack_def using l i g [OF l] g [OF i] s [OF l] s [OF i] m
    by simp
  have kept: "steer_range (self (save_config_values hack r)) = steer_range (self r)
   \<and> steer_range (self (set_drive_speed r v)) = steer_range (self r)
   \<and> steer_range (self (update_smart_dashboard r)) = steer_range (self r)
   \<and> (set_steer_angle r a = Inr r' \<longrightarrow> steer_range (self r') = steer_range (self r))
   \<and> (apply_control_values r a v = Inr r' \<longrightarrow> steer_range (self r') = steer_range (self r))"
    using steer_range_set_steer_angle [of r a r'] steer_range_apply_control_values [of r a v r']
    by (simp add: steer_range_save steer_range_set_drive_speed
        steer_range_update_smart_dashboard)
  have inv: "reachable q \<longrightarrow>
         steer_range (self q) = 1024
         \<and> 0 < steer_range (self q)
         \<and> get_steer_angle q \<noteq> Inl ZeroDivisionError
         \<and> set_steer_angle q a \<noteq> Inl ZeroDivisionError
         \<and> apply_control_values q a v \<noteq> Inl ZeroDivisionError"
  proof
    assume "reachable q"
    then have q: "steer_range (self q) = 1024" by (rule reachable_steer_range)
    with g [OF q] s [OF q] c [OF q] show
      "steer_range (self q) = 1024
         \<and> 0 < steer_range (self q)
         \<and> get_steer_angle q \<noteq> Inl ZeroDivisionError
         \<and> set_steer_angle q a \<noteq> Inl ZeroDivisionError
         \<and> apply_control_values q a v \<noteq> Inl ZeroDivisionError"
      by simp
  qed
  from first kept inv show ?thesis by blast
qed

theorem steer_range_positive_witness:
  "set_steer_angle example_robot (pi / 4) =
     Inr (example_robot\<lparr>self := (self example_robot)\<lparr>
            steer_target := pi / 4,
            steer_talon := (steer_talon (self example_robot))\<lparr>last_set := Some (Position, 128)\<rparr>,
            drive_temp_flipped := False\<rparr>\<rparr>)
   \<and> steer_range (self (example_robot\<lparr>self := (self example_robot)\<lparr>
            steer_target := pi / 4,
            steer_talon := (steer_talon (self example_robot))\<lparr>last_set := Some (Position, 128)\<rparr>,
            drive_temp_flipped := False\<rparr>\<rparr>)) = steer_range (self example_robot)
   \<and> apply_control_values example_robot (pi / 4) (1 / 2) =
       Inr (set_drive_speed (example_robot\<lparr>self := (self example_robot)\<lparr>
            steer_target := pi / 4,
            steer_talon := (steer_talon (self example_robot))\<lparr>last_set := Some (Position, 128)\<rparr>,
            drive_temp_flipped := False\<rparr>\<rparr>) (1 / 2))
   \<and> reachable (set_drive_speed (with_sensor 896 example_robot) (1 / 2))
   \<and> steer_range (self (set_drive_speed (with_sensor 896 example_robot) (1 / 2))) = 1024
   \<and> get_steer_angle (set_drive_speed (with_sensor 896 example_robot) (1 / 2))
        \<noteq> Inl ZeroDivisionError"
proof -
  have e: "reachable example_robot"
    unfolding example_robot_def by (rule reachable.init)
  have w: "with_sensor 896 example_robot =
       \<lparr>self = (self example_robot)\<lparr>
           steer_talon := (steer_talon (self example_robot))\<lparr>selected_sensor_position := 896\<rparr>,
           drive_talon := drive_talon (self example_robot)\<rparr>,
        prefs = prefs example_robot, smart_dashboard = smart_dashboard example_robot\<rparr>"
    by (simp add: with_sensor_def)
  have "reachable (with_sensor 896 example_robot)"
    unfolding w by (rule reachable.environment [OF e])
  then have q: "reachable (set_drive_speed (with_sensor 896 example_robot) (1 / 2))"
    by (rule reachable.drive)
  have ac: "apply_control_values example_robot (pi / 4) (1 / 2) =
       Inr (set_drive_speed (example_robot\<lparr>self := (self example_robot)\<lparr>
            steer_target := pi / 4,
            steer_talon := (steer_talon (self example_robot))\<lparr>last_set := Some (Position, 128)\<rparr>,
            drive_temp_flipped := False\<rparr>\<rparr>) (1 / 2))"
    by (simp add: apply_control_values_def set_steer_angle_quarter_pi)
  from steer_range_positive [where r = example_robot and a = "pi / 4"
      and r' = "example_robot\<lparr>self := (self example_robot)\<lparr>
            steer_target := pi / 4,
            steer_talon := (steer_talon (self example_robot))\<lparr>last_set := Some (Position, 128)\<rparr>,
            drive_temp_flipped := False\<rparr>\<rparr>"
      and q = "set_drive_speed (with_sensor 896 example_robot) (1 / 2)"]
    set_steer_angle_quarter_pi q ac
  show ?thesis by simp
qed

text \<open>
  The positivity rests on the flag: were \<^verbatim>\<open>_apply_range_hack\<close> set to true, equal
  persisted bounds would give \<^verbatim>\<open>steer_range = 0\<close>, and reading the angle would raise.
\<close>

lemma steer_range_hack_enabled_zero:
  "steer_range (self (load_config_values True
      (example_robot\<lparr>prefs := [''fl-min'' \<mapsto> PFloat 512, ''fl-max'' \<mapsto> PFloat 512]\<rparr>))) = 0
   \<and> get_steer_angle (load_config_values True
      (example_robot\<lparr>prefs := [''fl-min'' \<mapsto> PFloat 512, ''fl-max'' \<mapsto> PFloat 512]\<rparr>))
       = Inl ZeroDivisionError"
proof -
  have "steer_range (self (load_config_values True
      (example_robot\<lparr>prefs := [''fl-min'' \<mapsto> PFloat 512, ''fl-max'' \<mapsto> PFloat 512]\<rparr>))) = 0"
    by (simp add: load_True example_robot_self hack_margin_def getFloat_def py_trunc_def)
  then show ?thesis
    by (simp add: get_steer_angle_def Let_def)
qed

section \<open>Drive output\<close>

text \<open>
  C4. For every input \<open>p\<close>, \<^verbatim>\<open>set_drive_speed(p)\<close> sends to the drive controller, as a
  percent output, \<open>p\<close> times \<open>-1\<close> if \<^verbatim>\<open>drive_reversed\<close> and times \<open>-1\<close> if
  \<^verbatim>\<open>drive_temp_flipped\<close>: the magnitude \<open>\<bar>p\<bar>\<close> is unchanged, nothing is clamped, and
  with both flags set \<^verbatim>\<open>set_drive_speed(0.5)\<close> sends \<open>+0.5\<close>.
\<close>

theorem set_drive_speed_sends:
  "last_set (drive_talon (self (set_drive_speed r p))) =
     Some (PercentOutput,
           p * (if drive_reversed (self r) then - 1 else 1)
             * (if drive_temp_flipped (self r) then - 1 else 1))
   \<and> \<bar>snd (the (last_set (drive_talon (self (set_drive_speed r p)))))\<bar> = \<bar>p\<bar>
   \<and> last_set (drive_talon (self (set_drive_speed
          (r\<lparr>self := (self r)\<lparr>drive_reversed := True, drive_temp_flipped := True\<rparr>\<rparr>) (1 / 2))))
       = Some (PercentOutput, 1 / 2)"
  by (simp add: set_drive_speed_def Let_def)

theorem set_drive_speed_sends_witness:
  "last_set (drive_talon (self (set_drive_speed example_robot 3))) = Some (PercentOutput, 3)"
  using set_drive_speed_sends [of example_robot 3] by (simp add: example_robot_self)

section \<open>Reading the steering angle\<close>

text \<open>
  C7. \<^verbatim>\<open>get_steer_angle()\<close> returns
  \<open>((rawSensorPosition - steer_offset) / steer_range) * 2\<pi>\<close> with real division and no
  normalisation or range limit: the result is proportional to the native count and may
  exceed \<open>2\<pi>\<close> in magnitude. With \<^verbatim>\<open>steer_range = 1024\<close>, \<^verbatim>\<open>steer_offset = 0\<close> and raw
  sensor 0 it is exactly 0; at raw sensor 2048 it is \<open>4\<pi>\<close>, at -2048 it is \<open>-4\<pi>\<close>.
\<close>

theorem get_steer_angle_formula:
  "(steer_range (self r) \<noteq> 0 \<longrightarrow>
      get_steer_angle r =
        Inr (((real_of_int (selected_sensor_position (steer_talon (self r)))
                - steer_offset (self r))
              / real_of_int (steer_range (self r))) * 2 * pi))
   \<and> get_steer_angle example_robot = Inr 0
   \<and> get_steer_angle (with_sensor 2048 example_robot) = Inr (4 * pi) \<and> 2 * pi < 4 * pi
   \<and> get_steer_angle (with_sensor (- 2048) example_robot) = Inr (- 4 * pi)
   \<and> - 4 * pi < - 2 * pi"
  by (simp add: get_steer_angle_def Let_def example_robot_self with_sensor_def idle_talon_def)

theorem get_steer_angle_formula_witness:
  "steer_range (self (with_sensor 256 example_robot)) \<noteq> 0
   \<and> get_steer_angle (with_sensor 256 example_robot) = Inr (pi / 2)"
  using get_steer_angle_formula [of "with_sensor 256 example_robot"]
  by (simp add: example_robot_self with_sensor_def)

section \<open>Loading the configuration twice\<close>

text \<open>
  C6. \<^verbatim>\<open>load_config_values\<close> is idempotent: it does not change the preference store,
  and calling it twice in a row leaves the module in exactly the state one call leaves
  it in (\<^verbatim>\<open>steer_offset\<close>, \<^verbatim>\<open>steer_min\<close>, \<^verbatim>\<open>steer_max\<close>, \<^verbatim>\<open>steer_range\<close>,
  \<^verbatim>\<open>drive_reversed\<close>, \<^verbatim>\<open>steer_reversed\<close> and everything else), in either range mode.
\<close>

theorem load_config_values_idempotent:
  "prefs (load_config_values hack r) = prefs r
   \<and> load_config_values hack (load_config_values hack r) = load_config_values hack r"
proof (cases hack)
  case True
  then show ?thesis by (simp add: load_True)
next
  case False
  then show ?thesis by (simp add: load_False)
qed

section \<open>Transient control state\<close>

text \<open>
  C10. \<^verbatim>\<open>load_config_values\<close>, \<^verbatim>\<open>save_config_values\<close>, \<^verbatim>\<open>set_drive_speed\<close> and
  \<^verbatim>\<open>update_smart_dashboard\<close> leave \<^verbatim>\<open>steer_target\<close> and \<^verbatim>\<open>drive_temp_flipped\<close> as
  they were.
\<close>

theorem transient_state_frame:
  "steer_target (self (load_config_values hack r)) = steer_target (self r)
   \<and> drive_temp_flipped (self (load_config_values hack r)) = drive_temp_flipped (self r)
   \<and> steer_target (self (save_config_values hack r)) = steer_target (self r)
   \<and> drive_temp_flipped (self (save_config_values hack r)) = drive_temp_flipped (self r)
   \<and> steer_target (self (set_drive_speed r p)) = steer_target (self r)
   \<and> drive_temp_flipped (self (set_drive_speed r p)) = drive_temp_flipped (self r)
   \<and> steer_target (self (update_smart_dashboard r)) = steer_target (self r)
   \<and> drive_temp_flipped (self (update_smart_dashboard r)) = drive_temp_flipped (self r)"
proof -
  have l: "steer_target (self (load_config_values hack r)) = steer_target (self r)
     \<and> drive_temp_flipped (self (load_config_values hack r)) = drive_temp_flipped (self r)"
    by (cases hack) (simp_all add: load_True load_False)
  have s: "self (save_config_values hack r) = self r"
    by (simp add: save_config_values_def Let_def)
  have d: "steer_target (self (set_drive_speed r p)) = steer_target (self r)
     \<and> drive_temp_flipped (self (set_drive_speed r p)) = drive_temp_flipped (self r)"
    by (simp add: set_drive_speed_def Let_def)
  have u: "self (update_smart_dashboard r) = self r"
    by (simp add: update_smart_dashboard_def Let_def)
  from l s d u show ?thesis by simp
qed

end
